theory Spec2Isabelle
  imports Complex_Main
begin

section \<open>Text and scalar values\<close>

text \<open>
  Python text is modelled as \<^typ>\<open>string\<close>, one \<^typ>\<open>char\<close> per code point below 256.
  \<open>str_join sep parts\<close> is \<^verbatim>\<open>sep.join(parts)\<close>.
\<close>

fun str_join :: "string \<Rightarrow> string list \<Rightarrow> string" where
  "str_join sep [] = []"
| "str_join sep [x] = x"
| "str_join sep (x # y # ys) = x @ sep @ str_join sep (y # ys)"

text \<open>Decimal rendering of a natural number, as \<^verbatim>\<open>str(n)\<close> gives it.\<close>

definition digit_char :: "nat \<Rightarrow> char" where
  "digit_char d = ''0123456789'' ! d"

fun decimal :: "nat \<Rightarrow> string" where
  "decimal n = (if n < 10 then [digit_char n] else decimal (n div 10) @ [digit_char (n mod 10)])"

declare decimal.simps [simp del]

text \<open>
  The values a metadata mapping or an identifier list holds. The code only ever tests such
  a value for truth (\<^verbatim>\<open>if metadata.get(k)\<close>) and formats it (\<^verbatim>\<open>f"{v}"\<close>), so a value of
  any other type (a float, a list, a nested mapping) is \<open>PObj t s\<close>: its truth value \<open>t\<close> and
  its rendering \<open>s\<close>.
\<close>

datatype pyval =
    PNone
  | PBool bool
  | PInt int
  | PStr string
  | PObj bool string

fun truthy :: "pyval \<Rightarrow> bool" where
  "truthy PNone = False"
| "truthy (PBool b) = b"
| "truthy (PInt i) = (i \<noteq> 0)"
| "truthy (PStr s) = (s \<noteq> [])"
| "truthy (PObj t s) = t"

fun py_str :: "pyval \<Rightarrow> string" where
  "py_str PNone = ''None''"
| "py_str (PBool b) = (if b then ''True'' else ''False'')"
| "py_str (PInt i) = (if i < 0 then ''-'' @ decimal (nat (- i)) else decimal (nat i))"
| "py_str (PStr s) = s"
| "py_str (PObj t s) = s"

section \<open>vectorizer.py: the text derived from a metadata mapping\<close>

type_synonym metadata = "string \<rightharpoonup> pyval"

text \<open>
  One step of \<^verbatim>\<open>vectorize_metadata\<close>, lines 27 to 49:
  \<^verbatim>\<open>if metadata.get(key): text_parts.append(f"<label>{metadata[key]}")\<close>.
  \<^verbatim>\<open>metadata.get(key)\<close> is \<^verbatim>\<open>None\<close>, which is false, for an absent key, so the subscript
  under the test always finds the key.
\<close>

definition add_part :: "metadata \<Rightarrow> string \<Rightarrow> string \<Rightarrow> string list \<Rightarrow> string list" where
  "add_part m key label parts =
     (case m key of
        None \<Rightarrow> parts
      | Some v \<Rightarrow> if truthy v then parts @ [label @ py_str v] else parts)"

definition text_parts :: "metadata \<Rightarrow> string list" where
  "text_parts m =
     (let parts = [];
          parts = add_part m ''invoice_id'' ''Invoice ID: '' parts;
          parts = add_part m ''seller_name'' ''Seller: '' parts;
          parts = add_part m ''seller_address'' ''Address: '' parts;
          parts = add_part m ''tax_id'' ''Tax ID: '' parts;
          parts = add_part m ''subtotal_amount'' ''Subtotal: '' parts;
          parts = add_part m ''tax_amount'' ''Tax: '' parts;
          parts = add_part m ''contract_id'' ''Contract ID: '' parts;
          parts = add_part m ''text'' ''Text: '' parts;
          parts = add_part m ''summary'' ''Summary: '' parts
      in parts)"

definition metadata_text :: "metadata \<Rightarrow> string" where
  "metadata_text m = str_join '' | '' (text_parts m)"

text \<open>The invoice fields with their labels, in the order the claim about invoice text names them.\<close>

definition invoice_fields :: "(string \<times> string) list" where
  "invoice_fields =
     [(''invoice_id'', ''Invoice ID: ''), (''seller_name'', ''Seller: ''),
      (''seller_address'', ''Address: ''), (''tax_id'', ''Tax ID: ''),
      (''subtotal_amount'', ''Subtotal: ''), (''tax_amount'', ''Tax: '')]"

text \<open>
  The text as the specification words it: one labelled segment for each invoice field that
  is present in the mapping, in the fixed order, joined by the separator.
\<close>

definition spec_invoice_text :: "metadata \<Rightarrow> string" where
  "spec_invoice_text m =
     str_join '' | ''
       (map (\<lambda>(k, l). l @ py_str (case m k of Some v \<Rightarrow> v | None \<Rightarrow> PNone))
            (filter (\<lambda>(k, l). m k \<noteq> None) invoice_fields))"

text \<open>The fields that reach the text: present, with a value that counts as true.\<close>

definition contributes :: "metadata \<Rightarrow> string \<Rightarrow> bool" where
  "contributes m k = (case m k of None \<Rightarrow> False | Some v \<Rightarrow> truthy v)"

definition segment :: "metadata \<Rightarrow> string \<times> string \<Rightarrow> string" where
  "segment m kl = snd kl @ py_str (case m (fst kl) of Some v \<Rightarrow> v | None \<Rightarrow> PNone)"

section \<open>vectorizer.py: the objects the embedding service returns\<close>

text \<open>
  \<^verbatim>\<open>genai.embed_content\<close> returns a value whose shape the code inspects at run time with
  \<^verbatim>\<open>hasattr\<close> and \<^verbatim>\<open>isinstance\<close>. The model keeps what those tests see:
  \<^item> \<open>OFloat x\<close> is a float, taken as the real number it denotes (the code never computes with it);
  \<^item> \<open>ODict kvs\<close> is a \<^verbatim>\<open>dict\<close> with text keys, \<open>kvs\<close> its items;
  \<^item> \<open>OMethod n\<close> is a bound built-in method, such as \<^verbatim>\<open>d.values\<close> of a dict \<^verbatim>\<open>d\<close>;
  \<^item> \<open>OObj cls attrs items sz\<close> is an instance of any class that is not \<^verbatim>\<open>list\<close>,
    \<^verbatim>\<open>dict\<close> or \<^verbatim>\<open>str\<close>: the class name as \<^verbatim>\<open>type\<close> prints it, the attributes,
    the items it yields when it has \<^verbatim>\<open>__iter__\<close>, and its length when it has \<^verbatim>\<open>__len__\<close>.
\<close>

datatype pyobj =
    ONone
  | OInt int
  | OFloat real
  | OStr string
  | OList "pyobj list"
  | ODict "(string \<times> pyobj) list"
  | OMethod string
  | OObj string "(string \<times> pyobj) list" "pyobj list option" "nat option"

text \<open>An exception: its class and its message (\<^verbatim>\<open>str(e)\<close>).\<close>

datatype exn = Exn string string

fun exn_str :: "exn \<Rightarrow> string" where
  "exn_str (Exn cls msg) = msg"

abbreviation ValueError :: "string \<Rightarrow> exn" where
  "ValueError msg \<equiv> Exn ''ValueError'' msg"

abbreviation TypeError :: "string \<Rightarrow> exn" where
  "TypeError msg \<equiv> Exn ''TypeError'' msg"

definition dict_methods :: "string list" where
  "dict_methods =
     [''clear'', ''copy'', ''fromkeys'', ''get'', ''items'', ''keys'', ''pop'', ''popitem'',
      ''setdefault'', ''update'', ''values'']"

text \<open>
  \<open>get_attr x a\<close> is \<open>Some\<close> of \<^verbatim>\<open>getattr(x, a)\<close> when \<^verbatim>\<open>hasattr(x, a)\<close>, for the two
  names the code asks for, \<^verbatim>\<open>embedding\<close> and \<^verbatim>\<open>values\<close>. A dict has no attribute for its
  keys, but it has its methods, \<^verbatim>\<open>values\<close> among them.
\<close>

fun get_attr :: "pyobj \<Rightarrow> string \<Rightarrow> pyobj option" where
  "get_attr (OObj cls attrs items sz) a = map_of attrs a"
| "get_attr (ODict kvs) a = (if a \<in> set dict_methods then Some (OMethod a) else None)"
| "get_attr x a = None"

text \<open>\<^verbatim>\<open>d.get(key, default)\<close>.\<close>

definition dict_get :: "(string \<times> pyobj) list \<Rightarrow> string \<Rightarrow> pyobj \<Rightarrow> pyobj" where
  "dict_get kvs key dflt = (case map_of kvs key of Some v \<Rightarrow> v | None \<Rightarrow> dflt)"

fun is_list :: "pyobj \<Rightarrow> bool" where
  "is_list (OList xs) = True"
| "is_list x = False"

fun is_str :: "pyobj \<Rightarrow> bool" where
  "is_str (OStr s) = True"
| "is_str x = False"

text \<open>\<^verbatim>\<open>hasattr(x, '__iter__')\<close>.\<close>

fun has_iter :: "pyobj \<Rightarrow> bool" where
  "has_iter (OStr s) = True"
| "has_iter (OList xs) = True"
| "has_iter (ODict kvs) = True"
| "has_iter (OObj cls attrs items sz) = (items \<noteq> None)"
| "has_iter x = False"

text \<open>\<^verbatim>\<open>list(x)\<close> of an object that has \<^verbatim>\<open>__iter__\<close>.\<close>

fun iter_items :: "pyobj \<Rightarrow> pyobj list" where
  "iter_items (OList xs) = xs"
| "iter_items (OStr s) = map (\<lambda>c. OStr [c]) s"
| "iter_items (ODict kvs) = map (\<lambda>kv. OStr (fst kv)) kvs"
| "iter_items (OObj cls attrs items sz) = (case items of Some xs \<Rightarrow> xs | None \<Rightarrow> [])"
| "iter_items x = []"

text \<open>The class name between the quotes of \<^verbatim>\<open>type(x)\<close> as printed.\<close>

fun type_name :: "pyobj \<Rightarrow> string" where
  "type_name ONone = ''NoneType''"
| "type_name (OInt i) = ''int''"
| "type_name (OFloat x) = ''float''"
| "type_name (OStr s) = ''str''"
| "type_name (OList xs) = ''list''"
| "type_name (ODict kvs) = ''dict''"
| "type_name (OMethod n) = ''builtin_function_or_method''"
| "type_name (OObj cls attrs items sz) = cls"

definition quoted :: "string \<Rightarrow> string" where
  "quoted s = [CHR 0x27] @ s @ [CHR 0x27]"

definition type_str :: "pyobj \<Rightarrow> string" where
  "type_str x = ''<class '' @ quoted (type_name x) @ ''>''"

text \<open>\<^verbatim>\<open>len(x)\<close>, which raises \<^verbatim>\<open>TypeError\<close> on an object without \<^verbatim>\<open>__len__\<close>.\<close>

definition no_len :: "pyobj \<Rightarrow> exn" where
  "no_len x = TypeError (''object of type '' @ quoted (type_name x) @ '' has no len()'')"

fun py_len :: "pyobj \<Rightarrow> exn + nat" where
  "py_len (OStr s) = Inr (length s)"
| "py_len (OList xs) = Inr (length xs)"
| "py_len (ODict kvs) = Inr (length kvs)"
| "py_len (OObj cls attrs items sz) =
     (case sz of Some n \<Rightarrow> Inr n | None \<Rightarrow> Inl (no_len (OObj cls attrs items sz)))"
| "py_len x = Inl (no_len x)"

section \<open>vectorizer.py: extracting the embedding\<close>

text \<open>
  \<^verbatim>\<open>vectorize_metadata\<close>, lines 63 to 86. The logger calls are left out, except that the
  message of line 84 evaluates \<^verbatim>\<open>len(embedding)\<close>, which can raise.
\<close>

definition extract_document :: "pyobj \<Rightarrow> exn + pyobj" where
  "extract_document result =
     (let embedding =
            (case get_attr result ''embedding'' of
               Some e \<Rightarrow> (case e of ODict kvs \<Rightarrow> dict_get kvs ''values'' e | _ \<Rightarrow> e)
             | None \<Rightarrow>
                 (case result of ODict kvs \<Rightarrow> dict_get kvs ''embedding'' result | _ \<Rightarrow> result));
          ensured =
            (if \<not> is_list embedding then
               (case get_attr embedding ''values'' of
                  Some v \<Rightarrow> Inr v
                | None \<Rightarrow>
                    if has_iter embedding \<and> \<not> is_str embedding
                    then Inr (OList (iter_items embedding))
                    else Inl (ValueError (''Unexpected embedding format: '' @ type_str embedding)))
             else Inr embedding)
      in case ensured of
           Inl err \<Rightarrow> Inl err
         | Inr embedding \<Rightarrow>
             (case py_len embedding of Inl err \<Rightarrow> Inl err | Inr n \<Rightarrow> Inr embedding))"

text \<open>\<^verbatim>\<open>vectorize_query\<close>, lines 111 to 132, with the length evaluated at line 130.\<close>

definition extract_query :: "pyobj \<Rightarrow> exn + pyobj" where
  "extract_query result =
     (let embedding =
            (case get_attr result ''embedding'' of
               Some e \<Rightarrow> (case e of ODict kvs \<Rightarrow> dict_get kvs ''values'' e | _ \<Rightarrow> e)
             | None \<Rightarrow>
                 (case result of ODict kvs \<Rightarrow> dict_get kvs ''embedding'' result | _ \<Rightarrow> result));
          ensured =
            (if \<not> is_list embedding then
               (case get_attr embedding ''values'' of
                  Some v \<Rightarrow> Inr v
                | None \<Rightarrow>
                    if has_iter embedding \<and> \<not> is_str embedding
                    then Inr (OList (iter_items embedding))
                    else Inl (ValueError (''Unexpected embedding format: '' @ type_str embedding)))
             else Inr embedding)
      in case ensured of
           Inl err \<Rightarrow> Inl err
         | Inr embedding \<Rightarrow>
             (case py_len embedding of Inl err \<Rightarrow> Inl err | Inr n \<Rightarrow> Inr embedding))"

text \<open>
  The embedding service is a parameter: called with the model, the content and the task
  type, it returns a value or raises. Both methods log an exception and raise it again.
\<close>

datatype task_type = RETRIEVAL_DOCUMENT | RETRIEVAL_QUERY

type_synonym embed_service = "string \<Rightarrow> string \<Rightarrow> task_type \<Rightarrow> exn + pyobj"

definition vectorize_metadata :: "embed_service \<Rightarrow> string \<Rightarrow> metadata \<Rightarrow> exn + pyobj" where
  "vectorize_metadata embed_content model m =
     (case embed_content model (metadata_text m) RETRIEVAL_DOCUMENT of
        Inl err \<Rightarrow> Inl err
      | Inr result \<Rightarrow> extract_document result)"

definition vectorize_query :: "embed_service \<Rightarrow> string \<Rightarrow> string \<Rightarrow> exn + pyobj" where
  "vectorize_query embed_content model query_text =
     (case embed_content model query_text RETRIEVAL_QUERY of
        Inl err \<Rightarrow> Inl err
      | Inr result \<Rightarrow> extract_query result)"

text \<open>
  The response shapes as the specification words them: a plain list of numbers, a container
  with an \<^verbatim>\<open>embedding\<close> key or attribute that may nest a \<^verbatim>\<open>values\<close> entry, or a non-string
  iterable of numbers. \<open>spec_embedding r\<close> is the flat list the specification promises for
  \<open>r\<close>, and \<open>None\<close> when \<open>r\<close> has none of the shapes.
\<close>

fun is_number :: "pyobj \<Rightarrow> bool" where
  "is_number (OInt i) = True"
| "is_number (OFloat x) = True"
| "is_number x = False"

fun entry :: "pyobj \<Rightarrow> string \<Rightarrow> pyobj option" where
  "entry (ODict kvs) k = map_of kvs k"
| "entry (OObj cls attrs items sz) k = map_of attrs k"
| "entry x k = None"

definition number_list :: "pyobj \<Rightarrow> pyobj list option" where
  "number_list x = (case x of OList xs \<Rightarrow> if list_all is_number xs then Some xs else None | _ \<Rightarrow> None)"

definition spec_embedding :: "pyobj \<Rightarrow> pyobj list option" where
  "spec_embedding r =
     (if is_list r then number_list r
      else case entry r ''embedding'' of
             Some e \<Rightarrow>
               (if is_list e then number_list e
                else case entry e ''values'' of Some v \<Rightarrow> number_list v | None \<Rightarrow> None)
           | None \<Rightarrow>
               if has_iter r \<and> \<not> is_str r \<and> list_all is_number (iter_items r)
               then Some (iter_items r) else None)"

definition format_error :: "exn + pyobj \<Rightarrow> bool" where
  "format_error res =
     (case res of
        Inl (Exn cls msg) \<Rightarrow> cls = ''ValueError'' \<and> take 29 msg = ''Unexpected embedding format: ''
      | Inr v \<Rightarrow> False)"

definition numeric_result :: "exn + pyobj \<Rightarrow> bool" where
  "numeric_result res =
     (case res of Inr (OList xs) \<Rightarrow> list_all is_number xs | Inr v \<Rightarrow> False | Inl err \<Rightarrow> False)"

definition spec_extraction :: "(pyobj \<Rightarrow> exn + pyobj) \<Rightarrow> pyobj \<Rightarrow> bool" where
  "spec_extraction f r =
     (case spec_embedding r of Some xs \<Rightarrow> f r = Inr (OList xs) | None \<Rightarrow> format_error (f r))"

text \<open>The responses on which the extraction gives up: no list, no attribute to follow, nothing to iterate.\<close>

fun shapeless :: "pyobj \<Rightarrow> bool" where
  "shapeless ONone = True"
| "shapeless (OInt i) = True"
| "shapeless (OFloat x) = True"
| "shapeless (OStr s) = True"
| "shapeless (OMethod n) = True"
| "shapeless (OObj cls attrs items sz) =
     (map_of attrs ''embedding'' = None \<and> map_of attrs ''values'' = None \<and> items = None)"
| "shapeless (OList xs) = False"
| "shapeless (ODict kvs) = False"

section \<open>vectorizer.py: generating an answer\<close>

definition newline :: string where
  "newline = [CHR 0x0A]"

text \<open>
  One pass of the loop of lines 157 to 161, for the text at position \<open>i\<close>.
  \<^verbatim>\<open>contract_ids\<close> is \<^verbatim>\<open>None\<close> or a list; the test \<^verbatim>\<open>contract_ids and i < len(contract_ids)\<close>
  fails on \<^verbatim>\<open>None\<close> and on the empty list.
\<close>

definition context_part :: "pyval list option \<Rightarrow> nat \<Rightarrow> string \<Rightarrow> string" where
  "context_part contract_ids i text =
     (if (case contract_ids of None \<Rightarrow> False | Some ids \<Rightarrow> ids \<noteq> [] \<and> i < length ids)
      then ''Contract ID: '' @ py_str (case contract_ids of Some ids \<Rightarrow> ids ! i | None \<Rightarrow> PNone)
             @ newline @ text
      else ''Contract Excerpt '' @ decimal (i + 1) @ '':'' @ newline @ text)"

fun context_loop :: "pyval list option \<Rightarrow> nat \<Rightarrow> string list \<Rightarrow> string list \<Rightarrow> string list" where
  "context_loop contract_ids i [] parts = parts"
| "context_loop contract_ids i (text # texts) parts =
     context_loop contract_ids (Suc i) texts (parts @ [context_part contract_ids i text])"

definition context_parts :: "string list \<Rightarrow> pyval list option \<Rightarrow> string list" where
  "context_parts context_texts contract_ids = context_loop contract_ids 0 context_texts []"

definition build_prompt :: "string \<Rightarrow> string list \<Rightarrow> pyval list option \<Rightarrow> string" where
  "build_prompt query context_texts contract_ids =
     (let context = str_join (newline @ newline @ ''---'' @ newline @ newline)
                      (context_parts context_texts contract_ids)
      in ''You are a helpful assistant that answers questions about contracts based on the provided contract excerpts.''
         @ newline @ newline
         @ ''Use the following contract excerpts to answer the user's question. If the information is not available in the provided excerpts, say so clearly.''
         @ newline @ newline
         @ ''Contract Excerpts:'' @ newline
         @ context @ newline @ newline
         @ ''User Question: '' @ query @ newline @ newline
         @ ''Please provide a clear, accurate answer based on the contract excerpts above. If you reference specific information, mention which contract it comes from if available.'')"

text \<open>
  The response of the generation service. An attribute the code probes with \<^verbatim>\<open>hasattr\<close> is
  an option, \<open>None\<close> when the object has no such attribute. The text attributes hold text;
  \<^verbatim>\<open>str(candidate)\<close> and \<^verbatim>\<open>str(candidate.content)\<close> are fields of their own. The finish
  reason is only logged.
\<close>

record gen_part =
  part_text :: "string option"

record gen_content =
  content_parts :: "gen_part list option"
  content_text :: "string option"
  content_str :: string

record gen_candidate =
  finish_reason :: "int option"
  cand_content :: "gen_content option"
  cand_text :: "string option"
  cand_str :: string

record gen_feedback =
  block_reason :: "pyval option"

record gen_response =
  response_text :: "string option"
  candidates :: "gen_candidate list option"
  prompt_feedback :: "gen_feedback option"

text \<open>Lines 232 to 234: the texts of the parts that have a non-empty one.\<close>

fun parts_loop :: "gen_part list \<Rightarrow> string list \<Rightarrow> string list" where
  "parts_loop [] texts = texts"
| "parts_loop (p # ps) texts =
     parts_loop ps
       (case part_text p of
          Some t \<Rightarrow> if t \<noteq> [] then texts @ [t] else texts
        | None \<Rightarrow> texts)"

text \<open>Lines 229 to 249: the answer read from the first candidate, \<open>None\<close> when it stays unset.\<close>

definition candidate_answer :: "gen_candidate \<Rightarrow> string option" where
  "candidate_answer candidate =
     (case cand_content candidate of
        Some c \<Rightarrow>
          (case content_parts c of
             Some ps \<Rightarrow>
               (let texts = parts_loop ps []
                in if texts \<noteq> [] then Some (concat texts) else None)
           | None \<Rightarrow>
               (case content_text c of
                  Some t \<Rightarrow> Some t
                | None \<Rightarrow> Some (content_str c)))
      | None \<Rightarrow>
          (case cand_text candidate of
             Some t \<Rightarrow> Some t
           | None \<Rightarrow> Some (cand_str candidate)))"

text \<open>Lines 211 to 249: the answer text located in the response.\<close>

definition locate_answer :: "gen_response \<Rightarrow> string option" where
  "locate_answer response =
     (if (case response_text response of Some t \<Rightarrow> t \<noteq> [] | None \<Rightarrow> False)
      then response_text response
      else case candidates response of
             Some (candidate # rest) \<Rightarrow> candidate_answer candidate
           | Some [] \<Rightarrow> None
           | None \<Rightarrow> None)"

text \<open>
  \<^verbatim>\<open>str.strip()\<close>: the white space of Python among the code points below 256.
\<close>

definition whitespace :: "char list" where
  "whitespace =
     [CHR 0x09, CHR 0x0A, CHR 0x0B, CHR 0x0C, CHR 0x0D, CHR 0x1C, CHR 0x1D, CHR 0x1E, CHR 0x1F,
      CHR 0x20, CHR 0x85, CHR 0xA0]"

definition is_space :: "char \<Rightarrow> bool" where
  "is_space c = (c \<in> set whitespace)"

definition py_strip :: "string \<Rightarrow> string" where
  "py_strip s = rev (dropWhile is_space (rev (dropWhile is_space s)))"

text \<open>Lines 252 to 265, reached when \<^verbatim>\<open>not answer\<close>: the block reason, or no answer at all.\<close>

definition no_answer :: "gen_response \<Rightarrow> exn" where
  "no_answer response =
     (case prompt_feedback response of
        Some feedback \<Rightarrow>
          (case block_reason feedback of
             Some reason \<Rightarrow>
               if truthy reason then ValueError (''Content was blocked: '' @ py_str reason)
               else ValueError ''Could not extract answer from Gemini response''
           | None \<Rightarrow> ValueError ''Could not extract answer from Gemini response'')
      | None \<Rightarrow> ValueError ''Could not extract answer from Gemini response'')"

text \<open>Lines 211 to 272: from the response to the returned answer.\<close>

definition extract_answer :: "gen_response \<Rightarrow> exn + string" where
  "extract_answer response =
     (case locate_answer response of
        None \<Rightarrow> Inl (no_answer response)
      | Some answer \<Rightarrow>
          if answer = [] then Inl (no_answer response)
          else if py_strip answer = [] then Inl (ValueError ''Generated answer is empty'')
          else Inr (py_strip answer))"

text \<open>
  The two services are parameters: \<open>init_model name\<close> is \<^verbatim>\<open>genai.GenerativeModel(name)\<close>,
  \<open>None\<close> when it succeeds and the exception when it fails; \<open>generate_content name prompt\<close>
  is \<^verbatim>\<open>model.generate_content(prompt)\<close> on the model of that name. Every call made is
  recorded, in order.
\<close>

datatype service_call = InitModel string | GenerateContent string string

definition alternative_models :: "string list" where
  "alternative_models = [''gemini-1.5-pro'', ''gemini-1.5-flash'', ''gemini-pro'']"

text \<open>Lines 189 to 197: the first alternative, other than the configured model, that initializes.\<close>

fun try_alternatives ::
  "(string \<Rightarrow> exn option) \<Rightarrow> string \<Rightarrow> string list \<Rightarrow> string option \<times> service_call list" where
  "try_alternatives init_model model_name [] = (None, [])"
| "try_alternatives init_model model_name (alt_model # rest) =
     (if alt_model \<noteq> model_name then
        (case init_model alt_model of
           None \<Rightarrow> (Some alt_model, [InitModel alt_model])
         | Some err \<Rightarrow>
             (let (model, calls) = try_alternatives init_model model_name rest
              in (model, InitModel alt_model # calls)))
      else try_alternatives init_model model_name rest)"

text \<open>Lines 204 to 272: the generation call on the chosen model, and the answer.\<close>

definition generate_with ::
  "(string \<Rightarrow> string \<Rightarrow> exn + gen_response) \<Rightarrow> string \<Rightarrow> string \<Rightarrow> service_call list
     \<Rightarrow> (exn + string) \<times> service_call list" where
  "generate_with generate_content model prompt calls =
     (case generate_content model prompt of
        Inl gen_error \<Rightarrow> (Inl gen_error, calls @ [GenerateContent model prompt])
      | Inr response \<Rightarrow> (extract_answer response, calls @ [GenerateContent model prompt]))"

definition generate_answer ::
  "(string \<Rightarrow> exn option) \<Rightarrow> (string \<Rightarrow> string \<Rightarrow> exn + gen_response) \<Rightarrow> string
     \<Rightarrow> string \<Rightarrow> string list \<Rightarrow> pyval list option \<Rightarrow> (exn + string) \<times> service_call list" where
  "generate_answer init_model generate_content model_name query context_texts contract_ids =
     (if context_texts = [] then (Inr ''No contract context available to generate an answer.'', [])
      else
        let prompt = build_prompt query context_texts contract_ids
        in case init_model model_name of
             None \<Rightarrow> generate_with generate_content model_name prompt [InitModel model_name]
           | Some model_error \<Rightarrow>
               (case try_alternatives init_model model_name alternative_models of
                  (None, calls) \<Rightarrow>
                    (Inl (ValueError (''Could not initialize any Gemini model. Original error: ''
                                       @ exn_str model_error)),
                     InitModel model_name # calls)
                | (Some model, calls) \<Rightarrow>
                    generate_with generate_content model prompt (InitModel model_name # calls)))"

section \<open>test\_api.py: printing the uploaded document's metadata\<close>

text \<open>
  The body of a successful upload: the \<^verbatim>\<open>message\<close> and \<^verbatim>\<open>metadata\<close> entries of the JSON
  object, \<open>None\<close> when the key is missing; the metadata keeps the order of its items.
  What the tester prints is the list of the texts given to \<^verbatim>\<open>print\<close>.
\<close>

record upload_result =
  result_message :: "pyval option"
  result_metadata :: "(string \<times> pyval) list option"

record http_response =
  status_code :: int
  json_body :: "exn + upload_result"
  body_text :: string

text \<open>\<^verbatim>\<open>test_upload_invoice\<close>, lines 34 and 35.\<close>

fun print_metadata_invoice :: "(string \<times> pyval) list \<Rightarrow> string list \<Rightarrow> string list" where
  "print_metadata_invoice [] out = out"
| "print_metadata_invoice ((key, val) # rest) out =
     print_metadata_invoice rest (out @ [''  '' @ key @ '': '' @ py_str val])"

text \<open>\<^verbatim>\<open>test_upload_contract\<close>, lines 73 to 78.\<close>

fun print_metadata_contract :: "(string \<times> pyval) list \<Rightarrow> string list \<Rightarrow> string list" where
  "print_metadata_contract [] out = out"
| "print_metadata_contract ((key, val) # rest) out =
     print_metadata_contract rest
       (if key = ''text'' \<and> truthy val \<and> length (py_str val) > 200
        then out @ [''  '' @ key @ '': '' @ take 200 (py_str val) @ ''... (truncated, full length: ''
                     @ decimal (length (py_str val)) @ '' chars)'']
        else out @ [''  '' @ key @ '': '' @ py_str val])"

text \<open>
  The two banner glyphs, U+2705 and U+274C, lie beyond the code points a \<^typ>\<open>char\<close> holds and
  are written as their UTF-8 bytes.
\<close>

definition success_banner :: string where
  "success_banner = newline @ [CHR 0xE2, CHR 0x9C, CHR 0x85] @ '' Success!''"

definition error_banner :: "int \<Rightarrow> string" where
  "error_banner status = newline @ [CHR 0xE2, CHR 0x9D, CHR 0x8C] @ '' Error: '' @ py_str (PInt status)"

definition result_header :: "upload_result \<Rightarrow> string list" where
  "result_header result =
     [success_banner,
      ''Message: '' @ py_str (case result_message result of Some v \<Rightarrow> v | None \<Rightarrow> PNone),
      newline @ ''Extracted Metadata:'']"

text \<open>\<^verbatim>\<open>test_upload_invoice\<close>, lines 28 to 38 and 47 to 48, once the response has arrived.\<close>

definition report_invoice :: "http_response \<Rightarrow> string list" where
  "report_invoice response =
     (if status_code response = 200 then
        (case json_body response of
           Inl e \<Rightarrow> [''Error: '' @ exn_str e]
         | Inr result \<Rightarrow>
             print_metadata_invoice
               (case result_metadata result of Some kvs \<Rightarrow> kvs | None \<Rightarrow> [])
               (result_header result))
      else [error_banner (status_code response), body_text response])"

text \<open>\<^verbatim>\<open>test_upload_contract\<close>, lines 67 to 81 and 90 to 91.\<close>

definition report_contract :: "http_response \<Rightarrow> string list" where
  "report_contract response =
     (if status_code response = 200 then
        (case json_body response of
           Inl e \<Rightarrow> [''Error: '' @ exn_str e]
         | Inr result \<Rightarrow>
             print_metadata_contract
               (case result_metadata result of Some kvs \<Rightarrow> kvs | None \<Rightarrow> [])
               (result_header result))
      else [error_banner (status_code response), body_text response])"

text \<open>
  The lines as the specification words them: every pair printed, and any value whose text
  is unusually long cut to the preview length with a note of the true length.
\<close>

definition plain_line :: "string \<times> pyval \<Rightarrow> string" where
  "plain_line kv = ''  '' @ fst kv @ '': '' @ py_str (snd kv)"

definition truncated_line :: "string \<times> pyval \<Rightarrow> string" where
  "truncated_line kv =
     ''  '' @ fst kv @ '': '' @ take 200 (py_str (snd kv)) @ ''... (truncated, full length: ''
       @ decimal (length (py_str (snd kv))) @ '' chars)''"

definition spec_line :: "string \<times> pyval \<Rightarrow> string" where
  "spec_line kv = (if length (py_str (snd kv)) > 200 then truncated_line kv else plain_line kv)"

text \<open>The line of the contract path: only the field \<^verbatim>\<open>text\<close> is ever cut.\<close>

definition contract_line :: "string \<times> pyval \<Rightarrow> string" where
  "contract_line kv =
     (if fst kv = ''text'' \<and> truthy (snd kv) \<and> length (py_str (snd kv)) > 200
      then truncated_line kv else plain_line kv)"

section \<open>Properties of the derived text\<close>

lemma add_part_append:
  "add_part m k l parts = parts @ (if contributes m k then [segment m (k, l)] else [])"
  by (simp add: add_part_def contributes_def segment_def split: option.splits)

lemma text_parts_segments:
  "text_parts m =
     concat (map (\<lambda>kl. if contributes m (fst kl) then [segment m kl] else [])
       (invoice_fields @
        [(''contract_id'', ''Contract ID: ''), (''text'', ''Text: ''), (''summary'', ''Summary: '')]))"
  by (simp add: text_parts_def Let_def add_part_append invoice_fields_def)

lemma concat_map_filter:
  "concat (map (\<lambda>x. if P x then [f x] else []) xs) = map f (filter P xs)"
  by (induction xs) simp_all

lemma contributes_absent: "m k = None \<Longrightarrow> contributes m k = False"
  by (simp add: contributes_def)

lemma add_part_falsy:
  "m k = Some v \<Longrightarrow> \<not> truthy v \<Longrightarrow> add_part (m(k := None)) k' l parts = add_part m k' l parts"
  by (cases "k' = k") (simp_all add: add_part_def)

lemma str_join_snoc:
  "str_join sep (xs @ [x]) = (if xs = [] then x else str_join sep xs @ sep @ x)"
  by (induction sep xs rule: str_join.induct) simp_all

text \<open>
  C2, as the code has it: for a mapping with invoice keys only, the text is made of the
  labelled segments of the fields that are present \<^emph>\<open>with a value that counts as true\<close>, in
  the fixed order, joined by \<open>" | "\<close>; every other field contributes nothing. That text is
  the content \<^verbatim>\<open>vectorize_metadata\<close> sends to the embedding service.
\<close>

theorem invoice_text_truthy_fields:
  assumes "dom m \<subseteq> fst ` set invoice_fields"
  shows "text_parts m = map (segment m) (filter (\<lambda>kl. contributes m (fst kl)) invoice_fields)
       \<and> metadata_text m =
           str_join '' | '' (map (segment m) (filter (\<lambda>kl. contributes m (fst kl)) invoice_fields))
       \<and> vectorize_metadata embed_content model m =
           (case embed_content model
                   (str_join '' | ''
                      (map (segment m) (filter (\<lambda>kl. contributes m (fst kl)) invoice_fields)))
                   RETRIEVAL_DOCUMENT of
              Inl err \<Rightarrow> Inl err
            | Inr result \<Rightarrow> extract_document result)"
proof -
  have absent: "m ''contract_id'' = None" "m ''text'' = None" "m ''summary'' = None"
    using assms by (auto simp: invoice_fields_def dom_def)
  have "text_parts m =
      concat (map (\<lambda>kl. if contributes m (fst kl) then [segment m kl] else []) invoice_fields)"
    by (simp add: text_parts_segments contributes_absent absent)
  then have "text_parts m = map (segment m) (filter (\<lambda>kl. contributes m (fst kl)) invoice_fields)"
    by (simp only: concat_map_filter)
  then show ?thesis by (simp add: metadata_text_def vectorize_metadata_def)
qed

theorem invoice_text_truthy_fields_witness:
  "dom (Map.empty(''invoice_id'' \<mapsto> PStr ''A1'', ''tax_amount'' \<mapsto> PInt 7, ''seller_name'' \<mapsto> PStr ''''))
     \<subseteq> fst ` set invoice_fields
   \<and> metadata_text (Map.empty(''invoice_id'' \<mapsto> PStr ''A1'', ''tax_amount'' \<mapsto> PInt 7,
        ''seller_name'' \<mapsto> PStr '''')) = ''Invoice ID: A1 | Tax: 7''"
proof -
  let ?m = "Map.empty(''invoice_id'' \<mapsto> PStr ''A1'', ''tax_amount'' \<mapsto> PInt 7, ''seller_name'' \<mapsto> PStr '''')"
  have d: "dom ?m \<subseteq> fst ` set invoice_fields"
    by (simp add: invoice_fields_def)
  show ?thesis
    using d invoice_text_truthy_fields [OF d]
    by (simp add: invoice_fields_def contributes_def segment_def decimal.simps digit_char_def)
qed

text \<open>
  C2, as the specification words it, fails: a mapping that holds only a subtotal of zero has
  the subtotal present, yet the derived text is empty.
\<close>

theorem invoice_text_counterexample:
  "dom (Map.empty(''subtotal_amount'' \<mapsto> PInt 0)) \<subseteq> fst ` set invoice_fields
   \<and> spec_invoice_text (Map.empty(''subtotal_amount'' \<mapsto> PInt 0)) = ''Subtotal: 0''
   \<and> metadata_text (Map.empty(''subtotal_amount'' \<mapsto> PInt 0)) = []
   \<and> metadata_text (Map.empty(''subtotal_amount'' \<mapsto> PInt 0))
       \<noteq> spec_invoice_text (Map.empty(''subtotal_amount'' \<mapsto> PInt 0))"
  by (simp add: invoice_fields_def metadata_text_def text_parts_def add_part_def
      spec_invoice_text_def decimal.simps digit_char_def)

text \<open>
  C7, as the code has it: when the mapping holds a summary whose value counts as true, the
  last part of the text is the labelled summary, whatever other fields are present; the
  text is that part alone, or the earlier parts, the separator, and that part. That text is
  the content \<^verbatim>\<open>vectorize_metadata\<close> sends to the embedding service.
\<close>

theorem summary_is_last:
  assumes "m ''summary'' = Some v" and "truthy v"
  shows "text_parts m = butlast (text_parts m) @ [''Summary: '' @ py_str v]
       \<and> last (text_parts m) = ''Summary: '' @ py_str v
       \<and> metadata_text m =
           (if butlast (text_parts m) = [] then ''Summary: '' @ py_str v
            else str_join '' | '' (butlast (text_parts m)) @ '' | '' @ ''Summary: '' @ py_str v)
       \<and> vectorize_metadata embed_content model m =
           (case embed_content model
                   (if butlast (text_parts m) = [] then ''Summary: '' @ py_str v
                    else str_join '' | '' (butlast (text_parts m)) @ '' | '' @ ''Summary: '' @ py_str v)
                   RETRIEVAL_DOCUMENT of
              Inl err \<Rightarrow> Inl err
            | Inr result \<Rightarrow> extract_document result)"
proof -
  obtain front where parts: "text_parts m = front @ [''Summary: '' @ py_str v]"
    using assms by (simp add: text_parts_def Let_def add_part_def [of m "''summary''"])
  then show ?thesis
    by (simp add: metadata_text_def str_join_snoc vectorize_metadata_def)
qed

theorem summary_is_last_witness:
  "last (text_parts (Map.empty(''invoice_id'' \<mapsto> PStr ''A1'', ''summary'' \<mapsto> PStr ''two items'')))
     = ''Summary: two items''
   \<and> metadata_text (Map.empty(''invoice_id'' \<mapsto> PStr ''A1'', ''summary'' \<mapsto> PStr ''two items''))
     = ''Invoice ID: A1 | Summary: two items''"
  using summary_is_last [of "Map.empty(''invoice_id'' \<mapsto> PStr ''A1'', ''summary'' \<mapsto> PStr ''two items'')"
      "PStr ''two items''"]
  by (simp add: text_parts_def add_part_def)

text \<open>
  C7, as the specification words it, fails: with an empty summary in the mapping, the last
  part of the text is the invoice identifier, and no part is the summary.
\<close>

theorem summary_is_last_counterexample:
  "(Map.empty(''invoice_id'' \<mapsto> PStr ''A1'', ''summary'' \<mapsto> PStr '''')) ''summary'' = Some (PStr '''')
   \<and> text_parts (Map.empty(''invoice_id'' \<mapsto> PStr ''A1'', ''summary'' \<mapsto> PStr '''')) = [''Invoice ID: A1'']
   \<and> last (text_parts (Map.empty(''invoice_id'' \<mapsto> PStr ''A1'', ''summary'' \<mapsto> PStr '''')))
       \<noteq> ''Summary: '' @ py_str (PStr '''')"
  by (simp add: text_parts_def add_part_def)

text \<open>
  C9: a field whose value is false in the Python sense (the empty string, zero, \<^verbatim>\<open>None\<close>,
  \<^verbatim>\<open>False\<close>) is treated as if the key were absent: removing the key changes neither the
  parts nor the text, nor what \<^verbatim>\<open>vectorize_metadata\<close> returns. The four values named are
  false in that sense.
\<close>

theorem falsy_as_absent:
  assumes "m k = Some v" and "\<not> truthy v"
  shows "text_parts m = text_parts (m(k := None)) \<and> metadata_text m = metadata_text (m(k := None))
       \<and> vectorize_metadata embed_content model m
           = vectorize_metadata embed_content model (m(k := None))"
  using assms
  by (simp add: vectorize_metadata_def metadata_text_def text_parts_def Let_def add_part_falsy)

theorem falsy_as_absent_witness:
  "\<not> truthy (PInt 0) \<and> \<not> truthy (PStr '''') \<and> \<not> truthy PNone \<and> \<not> truthy (PBool False)
   \<and> metadata_text (Map.empty(''invoice_id'' \<mapsto> PStr ''A1'', ''subtotal_amount'' \<mapsto> PInt 0))
     = metadata_text (Map.empty(''invoice_id'' \<mapsto> PStr ''A1''))
   \<and> metadata_text (Map.empty(''invoice_id'' \<mapsto> PStr ''A1'', ''subtotal_amount'' \<mapsto> PInt 0))
     = ''Invoice ID: A1''"
proof -
  let ?m = "Map.empty(''invoice_id'' \<mapsto> PStr ''A1'', ''subtotal_amount'' \<mapsto> PInt 0)"
  have upd: "?m(''subtotal_amount'' := None) = Map.empty(''invoice_id'' \<mapsto> PStr ''A1'')"
    by (rule ext) simp
  have "metadata_text ?m = metadata_text (?m(''subtotal_amount'' := None))"
    using falsy_as_absent [of ?m "''subtotal_amount''" "PInt 0"] by simp
  then have "metadata_text ?m = metadata_text (Map.empty(''invoice_id'' \<mapsto> PStr ''A1''))"
    by (simp only: upd)
  moreover have "metadata_text (Map.empty(''invoice_id'' \<mapsto> PStr ''A1'')) = ''Invoice ID: A1''"
    by (simp add: metadata_text_def text_parts_def add_part_def)
  ultimately show ?thesis by simp
qed

section \<open>Properties of the embedding extraction\<close>

lemma extract_query_document: "extract_query = extract_document"
  by (rule ext) (simp add: extract_query_def extract_document_def)

lemma extract_list: "extract_document (OList xs) = Inr (OList xs)"
  by (simp add: extract_document_def)

lemma extract_attr_list:
  "map_of attrs ''embedding'' = Some (OList xs) \<Longrightarrow>
   extract_document (OObj cls attrs items sz) = Inr (OList xs)"
  by (simp add: extract_document_def)

lemma extract_attr_dict_values:
  "map_of attrs ''embedding'' = Some (ODict kvs) \<Longrightarrow> map_of kvs ''values'' = Some (OList xs) \<Longrightarrow>
   extract_document (OObj cls attrs items sz) = Inr (OList xs)"
  by (simp add: extract_document_def dict_get_def)

lemma extract_attr_obj_values:
  "map_of attrs ''embedding'' = Some (OObj c as its n) \<Longrightarrow> map_of as ''values'' = Some (OList xs) \<Longrightarrow>
   extract_document (OObj cls attrs items sz) = Inr (OList xs)"
  by (simp add: extract_document_def)

lemma extract_key_list:
  "map_of kvs ''embedding'' = Some (OList xs) \<Longrightarrow> extract_document (ODict kvs) = Inr (OList xs)"
  by (simp add: extract_document_def dict_get_def dict_methods_def)

lemma extract_key_obj_values:
  "map_of kvs ''embedding'' = Some (OObj c as its n) \<Longrightarrow> map_of as ''values'' = Some (OList xs) \<Longrightarrow>
   extract_document (ODict kvs) = Inr (OList xs)"
  by (simp add: extract_document_def dict_get_def dict_methods_def)

lemma extract_iterable:
  "map_of attrs ''embedding'' = None \<Longrightarrow> map_of attrs ''values'' = None \<Longrightarrow>
   extract_document (OObj cls attrs (Some xs) sz) = Inr (OList xs)"
  by (simp add: extract_document_def)

lemma extract_values_attr:
  "map_of attrs ''embedding'' = None \<Longrightarrow> map_of attrs ''values'' = Some (OList xs) \<Longrightarrow>
   extract_document (OObj cls attrs items sz) = Inr (OList xs)"
  by (simp add: extract_document_def)

lemma extract_shapeless:
  "shapeless r \<Longrightarrow>
   extract_document r = Inl (ValueError (''Unexpected embedding format: '' @ type_str r))"
  by (cases r) (simp_all add: extract_document_def)

text \<open>
  C1, as the code has it. For both methods the extraction returns the list unchanged, its
  elements unchecked, when the response is a list; an object whose \<^verbatim>\<open>embedding\<close> attribute,
  or a dict whose \<^verbatim>\<open>embedding\<close> key, holds a list or an object with a list under the
  attribute \<^verbatim>\<open>values\<close>; an object whose \<^verbatim>\<open>embedding\<close> attribute is a dict with a list
  under the key \<^verbatim>\<open>values\<close>; an object without \<^verbatim>\<open>embedding\<close> whose attribute \<^verbatim>\<open>values\<close>
  holds a list; and it returns the items of an iterable object that has neither attribute.
  It raises the unexpected-format error, naming the type, for \<^verbatim>\<open>None\<close>, a
  number, a string, and an object with neither attribute that cannot be iterated. Each
  method returns what its extraction gives on the value the service returned.
\<close>

theorem extraction_shapes:
  assumes "f = extract_document \<or> f = extract_query"
  shows "f (OList xs) = Inr (OList xs)
    \<and> (map_of attrs ''embedding'' = Some (OList xs) \<longrightarrow>
         f (OObj cls attrs items sz) = Inr (OList xs))
    \<and> (map_of attrs ''embedding'' = Some (ODict kvs) \<and> map_of kvs ''values'' = Some (OList xs) \<longrightarrow>
         f (OObj cls attrs items sz) = Inr (OList xs))
    \<and> (map_of attrs ''embedding'' = Some (OObj c as its n) \<and> map_of as ''values'' = Some (OList xs) \<longrightarrow>
         f (OObj cls attrs items sz) = Inr (OList xs))
    \<and> (map_of kvs ''embedding'' = Some (OList xs) \<longrightarrow> f (ODict kvs) = Inr (OList xs))
    \<and> (map_of kvs ''embedding'' = Some (OObj c as its n) \<and> map_of as ''values'' = Some (OList xs) \<longrightarrow>
         f (ODict kvs) = Inr (OList xs))
    \<and> (map_of attrs ''embedding'' = None \<and> map_of attrs ''values'' = Some (OList xs) \<longrightarrow>
         f (OObj cls attrs items sz) = Inr (OList xs))
    \<and> (map_of attrs ''embedding'' = None \<and> map_of attrs ''values'' = None \<longrightarrow>
         f (OObj cls attrs (Some xs) sz) = Inr (OList xs))
    \<and> (shapeless r \<longrightarrow>
         f r = Inl (ValueError (''Unexpected embedding format: '' @ type_str r)))
    \<and> (embed_content model (metadata_text m) RETRIEVAL_DOCUMENT = Inr r \<longrightarrow>
         vectorize_metadata embed_content model m = extract_document r)
    \<and> (embed_content model query_text RETRIEVAL_QUERY = Inr r \<longrightarrow>
         vectorize_query embed_content model query_text = extract_query r)"
proof -
  have f: "f = extract_document"
    using assms by (auto simp: extract_query_document)
  show ?thesis
    unfolding f
    by (simp add: extract_list extract_attr_list extract_attr_dict_values extract_attr_obj_values
        extract_key_list extract_key_obj_values extract_values_attr extract_iterable
        extract_shapeless vectorize_metadata_def vectorize_query_def)
qed

theorem extraction_shapes_witness:
  "extract_document (OList [OFloat 0.5, OFloat 0.25]) = Inr (OList [OFloat 0.5, OFloat 0.25])
   \<and> extract_query (OObj ''EmbedContentResponse'' [(''embedding'', OList [OFloat 0.5])] None None)
       = Inr (OList [OFloat 0.5])
   \<and> extract_document
       (OObj ''EmbedContentResponse'' [(''embedding'', ODict [(''values'', OList [OFloat 0.5])])] None None)
       = Inr (OList [OFloat 0.5])
   \<and> extract_query (ODict [(''embedding'', OList [OFloat 0.5, OInt 2])]) = Inr (OList [OFloat 0.5, OInt 2])
   \<and> extract_document (OObj ''tuple'' [] (Some [OInt 1, OInt 2]) (Some 2)) = Inr (OList [OInt 1, OInt 2])
   \<and> extract_query (OObj ''Embedding'' [(''values'', OList [OFloat 0.5])] None None)
       = Inr (OList [OFloat 0.5])
   \<and> extract_query (OStr ''abc'')
       = Inl (ValueError (''Unexpected embedding format: <class '' @ quoted ''str'' @ ''>''))
   \<and> extract_document ONone
       = Inl (ValueError (''Unexpected embedding format: <class '' @ quoted ''NoneType'' @ ''>''))"
  using
    extraction_shapes [of extract_document "[OFloat 0.5, OFloat 0.25]" "[]" "''x''" None None
      "[]" "''y''" "[]" None None ONone]
    extraction_shapes [of extract_query "[OFloat 0.5]" "[(''embedding'', OList [OFloat 0.5])]"
      "''EmbedContentResponse''" None None "[]" "''y''" "[]" None None "OStr ''abc''"]
    extraction_shapes [of extract_document "[OFloat 0.5]"
      "[(''embedding'', ODict [(''values'', OList [OFloat 0.5])])]" "''EmbedContentResponse''" None None
      "[(''values'', OList [OFloat 0.5])]" "''y''" "[]" None None ONone]
    extraction_shapes [of extract_query "[OFloat 0.5, OInt 2]" "[]" "''x''" None None
      "[(''embedding'', OList [OFloat 0.5, OInt 2])]" "''y''" "[]" None None ONone]
    extraction_shapes [of extract_document "[OInt 1, OInt 2]" "[]" "''tuple''" None "Some 2"
      "[]" "''y''" "[]" None None ONone]
    extraction_shapes [of extract_query "[OFloat 0.5]" "[(''values'', OList [OFloat 0.5])]"
      "''Embedding''" None None "[]" "''y''" "[]" None None ONone]
  by (simp add: type_str_def)

text \<open>
  C1, as the specification words it, fails on both methods. An object with no
  \<^verbatim>\<open>embedding\<close> attribute that cannot be iterated is none of the three shapes, yet when it
  has an attribute \<^verbatim>\<open>values\<close> that attribute is returned and no error is raised. A dict
  whose \<^verbatim>\<open>embedding\<close> key holds a dict with the numbers under \<^verbatim>\<open>values\<close> is the second
  shape, yet the extraction follows the inner dict's method \<^verbatim>\<open>values\<close> and the length of a
  method raises \<^verbatim>\<open>TypeError\<close>.
\<close>

theorem extraction_counterexample:
  "spec_embedding (OObj ''Embedding'' [(''values'', OList [OFloat 0.5])] None None) = None
   \<and> extract_document (OObj ''Embedding'' [(''values'', OList [OFloat 0.5])] None None)
       = Inr (OList [OFloat 0.5])
   \<and> extract_query (OObj ''Embedding'' [(''values'', OList [OFloat 0.5])] None None)
       = Inr (OList [OFloat 0.5])
   \<and> \<not> spec_extraction extract_document (OObj ''Embedding'' [(''values'', OList [OFloat 0.5])] None None)
   \<and> spec_embedding (ODict [(''embedding'', ODict [(''values'', OList [OFloat 0.5])])]) = Some [OFloat 0.5]
   \<and> extract_document (ODict [(''embedding'', ODict [(''values'', OList [OFloat 0.5])])])
       = Inl (TypeError (''object of type '' @ quoted ''builtin_function_or_method'' @ '' has no len()''))
   \<and> extract_query (ODict [(''embedding'', ODict [(''values'', OList [OFloat 0.5])])])
       = Inl (TypeError (''object of type '' @ quoted ''builtin_function_or_method'' @ '' has no len()''))
   \<and> \<not> spec_extraction extract_query (ODict [(''embedding'', ODict [(''values'', OList [OFloat 0.5])])])"
  by (simp add: spec_extraction_def spec_embedding_def number_list_def format_error_def
      extract_document_def extract_query_def dict_get_def dict_methods_def no_len_def)

text \<open>
  C10, as the code has it: on every value the embedding service returns, the two
  extractions have the same outcome, whatever that outcome is; and the two methods agree
  whenever the service answers the two calls alike, so they differ only in the text sent
  and the task type.
\<close>

theorem extractions_agree:
  "extract_query r = extract_document r
   \<and> (embed_content model (metadata_text m) RETRIEVAL_DOCUMENT
        = embed_content model query_text RETRIEVAL_QUERY \<longrightarrow>
      vectorize_metadata embed_content model m = vectorize_query embed_content model query_text)"
  by (simp add: vectorize_metadata_def vectorize_query_def extract_query_document split: sum.splits)

theorem extractions_agree_witness:
  "extract_query (ODict [(''embedding'', OList [OFloat 0.5])]) = Inr (OList [OFloat 0.5])
   \<and> vectorize_metadata (\<lambda>model content task. Inr (ODict [(''embedding'', OList [OFloat 0.5])]))
        ''models/embedding-001'' (Map.empty(''summary'' \<mapsto> PStr ''lease''))
     = vectorize_query (\<lambda>model content task. Inr (ODict [(''embedding'', OList [OFloat 0.5])]))
        ''models/embedding-001'' ''lease terms''"
  using extractions_agree [of "ODict [(''embedding'', OList [OFloat 0.5])]"
      "\<lambda>model content task. Inr (ODict [(''embedding'', OList [OFloat 0.5])])" "''models/embedding-001''"
      "Map.empty(''summary'' \<mapsto> PStr ''lease'')" "''lease terms''"]
  by (simp add: extract_document_def dict_get_def dict_methods_def)

text \<open>
  C10, as the specification words it, fails: the two extractions agree, but what they
  agree on need be neither a list of numbers nor the unexpected-format error. Nothing
  checks the elements of a list, so a list of text is returned as it is; and the attribute
  \<^verbatim>\<open>values\<close> of an object is returned whatever it holds, here a text.
\<close>

theorem extractions_agree_counterexample:
  "extract_document (OList [OStr ''a'']) = Inr (OList [OStr ''a''])
   \<and> extract_query (OList [OStr ''a'']) = Inr (OList [OStr ''a''])
   \<and> \<not> numeric_result (extract_document (OList [OStr ''a'']))
   \<and> \<not> format_error (extract_document (OList [OStr ''a'']))
   \<and> \<not> numeric_result (extract_query (OList [OStr ''a'']))
   \<and> \<not> format_error (extract_query (OList [OStr ''a'']))
   \<and> extract_document (OObj ''Embedding'' [(''values'', OStr ''abc'')] None None) = Inr (OStr ''abc'')
   \<and> extract_query (OObj ''Embedding'' [(''values'', OStr ''abc'')] None None) = Inr (OStr ''abc'')
   \<and> \<not> numeric_result (extract_document (OObj ''Embedding'' [(''values'', OStr ''abc'')] None None))
   \<and> \<not> format_error (extract_document (OObj ''Embedding'' [(''values'', OStr ''abc'')] None None))
   \<and> \<not> numeric_result (extract_query (OObj ''Embedding'' [(''values'', OStr ''abc'')] None None))
   \<and> \<not> format_error (extract_query (OObj ''Embedding'' [(''values'', OStr ''abc'')] None None))"
  by (simp add: numeric_result_def format_error_def extract_document_def extract_query_def)

section \<open>Properties of answer generation\<close>

lemma context_loop_eq:
  "context_loop ids i texts parts =
     parts @ map (\<lambda>j. context_part ids (i + j) (texts ! j)) [0..<length texts]"
proof (induction texts arbitrary: i parts)
  case Nil
  then show ?case by simp
next
  case (Cons t ts)
  have "[0..<Suc (length ts)] = 0 # map Suc [0..<length ts]"
    by (simp only: map_Suc_upt upt_conv_Cons zero_less_Suc)
  then show ?case
    using Cons.IH [of "Suc i" "parts @ [context_part ids i t]"]
    by (simp add: comp_def del: upt_Suc)
qed

lemma generate_with_calls:
  "snd (generate_with generate_content model prompt calls) = calls @ [GenerateContent model prompt]"
  by (simp add: generate_with_def split: sum.splits)

lemma generate_with_result:
  "generate_content model prompt = Inr response \<Longrightarrow>
   fst (generate_with generate_content model prompt calls) = extract_answer response"
  by (simp add: generate_with_def)

lemma generate_answer_with:
  assumes "context_texts \<noteq> []"
    and "(init_model model_name = None \<and> model = model_name)
       \<or> (init_model model_name \<noteq> None
          \<and> fst (try_alternatives init_model model_name alternative_models) = Some model)"
  shows "generate_answer init_model generate_content model_name query context_texts contract_ids =
     generate_with generate_content model (build_prompt query context_texts contract_ids)
       (InitModel model_name #
          (case init_model model_name of
             None \<Rightarrow> []
           | Some err \<Rightarrow> snd (try_alternatives init_model model_name alternative_models)))"
proof (cases "init_model model_name")
  case None
  with assms show ?thesis
    by (simp add: generate_answer_def Let_def)
next
  case (Some err)
  with assms(2) have alt: "fst (try_alternatives init_model model_name alternative_models) = Some model"
    by simp
  obtain calls where t: "try_alternatives init_model model_name alternative_models = (Some model, calls)"
    using alt by (cases "try_alternatives init_model model_name alternative_models") simp
  show ?thesis
    using assms(1) Some t by (simp add: generate_answer_def Let_def)
qed

lemma prompt_contains_context:
  "\<exists>pre post. build_prompt query context_texts contract_ids =
     pre @ str_join (newline @ newline @ ''---'' @ newline @ newline)
             (context_parts context_texts contract_ids) @ post"
  unfolding build_prompt_def Let_def
  by (metis append.assoc)

text \<open>
  C3: when a model initializes, the configured one or an alternative, the last call
  \<^verbatim>\<open>generate_answer\<close> makes is the generation call on that model, and the prompt it passes
  holds the context parts, joined, one part for each text. The part for the text at
  position \<open>i\<close> opens with \<open>Contract ID: <id>\<close> when the identifier list reaches position
  \<open>i\<close>, and otherwise, the list being absent or too short, with the generic label
  \<open>Contract Excerpt N:\<close>, \<open>N = i + 1\<close>.
\<close>

theorem excerpt_labels:
  assumes "i < length context_texts"
    and "(init_model model_name = None \<and> model = model_name)
       \<or> (init_model model_name \<noteq> None
          \<and> fst (try_alternatives init_model model_name alternative_models) = Some model)"
  shows "(\<exists>pre post.
           snd (generate_answer init_model generate_content model_name query context_texts contract_ids)
             = InitModel model_name #
                 (case init_model model_name of
                    None \<Rightarrow> []
                  | Some err \<Rightarrow> snd (try_alternatives init_model model_name alternative_models))
                 @ [GenerateContent model
                      (pre @ str_join (newline @ newline @ ''---'' @ newline @ newline)
                               (context_parts context_texts contract_ids) @ post)])
    \<and> length (context_parts context_texts contract_ids) = length context_texts
    \<and> context_parts context_texts contract_ids ! i =
        (case contract_ids of
           None \<Rightarrow> ''Contract '' @ ''Excerpt '' @ decimal (i + 1) @ '':'' @ newline @ context_texts ! i
         | Some ids \<Rightarrow>
             if i < length ids
             then ''Contract ID: '' @ py_str (ids ! i) @ newline @ context_texts ! i
             else ''Contract '' @ ''Excerpt '' @ decimal (i + 1) @ '':'' @ newline @ context_texts ! i)"
proof -
  have ne: "context_texts \<noteq> []"
    using assms(1) by auto
  obtain pre post where prompt: "build_prompt query context_texts contract_ids =
      pre @ str_join (newline @ newline @ ''---'' @ newline @ newline)
              (context_parts context_texts contract_ids) @ post"
    using prompt_contains_context [of query context_texts contract_ids] by blast
  have "snd (generate_answer init_model generate_content model_name query context_texts contract_ids)
      = InitModel model_name #
          (case init_model model_name of
             None \<Rightarrow> []
           | Some err \<Rightarrow> snd (try_alternatives init_model model_name alternative_models))
          @ [GenerateContent model (build_prompt query context_texts contract_ids)]"
    by (simp add: generate_answer_with [OF ne assms(2)] generate_with_calls)
  then have calls: "\<exists>pre post.
      snd (generate_answer init_model generate_content model_name query context_texts contract_ids)
        = InitModel model_name #
            (case init_model model_name of
               None \<Rightarrow> []
             | Some err \<Rightarrow> snd (try_alternatives init_model model_name alternative_models))
            @ [GenerateContent model
                 (pre @ str_join (newline @ newline @ ''---'' @ newline @ newline)
                          (context_parts context_texts contract_ids) @ post)]"
    using prompt by metis
  have len: "length (context_parts context_texts contract_ids) = length context_texts"
    by (simp add: context_parts_def context_loop_eq)
  have "context_parts context_texts contract_ids ! i =
        (case contract_ids of
           None \<Rightarrow> ''Contract '' @ ''Excerpt '' @ decimal (i + 1) @ '':'' @ newline @ context_texts ! i
         | Some ids \<Rightarrow>
             if i < length ids
             then ''Contract ID: '' @ py_str (ids ! i) @ newline @ context_texts ! i
             else ''Contract '' @ ''Excerpt '' @ decimal (i + 1) @ '':'' @ newline @ context_texts ! i)"
    using assms(1)
    by (auto simp: context_parts_def context_loop_eq context_part_def split: option.splits)
  with calls len show ?thesis
    by (intro conjI)
qed

theorem excerpt_labels_witness:
  "context_parts [''alpha'', ''beta''] (Some [PStr ''C-7'']) =
     [''Contract ID: C-7'' @ newline @ ''alpha'', ''Contract Excerpt 2:'' @ newline @ ''beta'']
   \<and> context_parts [''alpha'', ''beta''] None ! 0 = ''Contract Excerpt 1:'' @ newline @ ''alpha''
   \<and> (\<exists>pre post.
        snd (generate_answer (\<lambda>name. None) (\<lambda>name prompt. Inl (Exn ''X'' ''down'')) ''gemini-pro''
               ''When?'' [''alpha'', ''beta''] (Some [PStr ''C-7'']))
          = [InitModel ''gemini-pro'',
             GenerateContent ''gemini-pro''
               (pre @ ''Contract ID: C-7'' @ newline @ ''alpha''
                  @ newline @ newline @ ''---'' @ newline @ newline
                  @ ''Contract Excerpt 2:'' @ newline @ ''beta'' @ post)])
   \<and> (\<exists>pre post.
        snd (generate_answer
               (\<lambda>name. if name = ''gemini-1.5-flash'' then None else Some (Exn ''X'' ''down''))
               (\<lambda>name prompt. Inl (Exn ''X'' ''down'')) ''gemini-2.0-flash''
               ''When?'' [''alpha'', ''beta''] None)
          = [InitModel ''gemini-2.0-flash'', InitModel ''gemini-1.5-pro'', InitModel ''gemini-1.5-flash'',
             GenerateContent ''gemini-1.5-flash''
               (pre @ str_join (newline @ newline @ ''---'' @ newline @ newline)
                        (context_parts [''alpha'', ''beta''] None) @ post)])"
proof -
  let ?ids = "Some [PStr ''C-7'']"
  let ?texts = "[''alpha'', ''beta'']"
  let ?ok = "\<lambda>name::string. None :: exn option"
  let ?alt = "\<lambda>name. if name = ''gemini-1.5-flash'' then None else Some (Exn ''X'' ''down'')"
  let ?gen = "\<lambda>(name::string) (prompt::string). Inl (Exn ''X'' ''down'') :: exn + gen_response"
  note primary0 = excerpt_labels [where i = 0 and context_texts = ?texts and contract_ids = ?ids
      and init_model = ?ok and model_name = "''gemini-pro''" and model = "''gemini-pro''"
      and generate_content = ?gen and query = "''When?''"]
  note primary1 = excerpt_labels [where i = 1 and context_texts = ?texts and contract_ids = ?ids
      and init_model = ?ok and model_name = "''gemini-pro''" and model = "''gemini-pro''"
      and generate_content = ?gen and query = "''When?''"]
  note fallback = excerpt_labels [where i = 0 and context_texts = ?texts and contract_ids = None
      and init_model = ?alt and model_name = "''gemini-2.0-flash''" and model = "''gemini-1.5-flash''"
      and generate_content = ?gen and query = "''When?''"]
  have len: "length (context_parts ?texts ?ids) = 2"
    using primary0 by simp
  have p0: "context_parts ?texts ?ids ! 0 = ''Contract ID: C-7'' @ newline @ ''alpha''"
    using primary0 by simp
  have p1: "context_parts ?texts ?ids ! 1 = ''Contract Excerpt 2:'' @ newline @ ''beta''"
    using primary1 by (simp add: decimal.simps digit_char_def)
  have "context_parts ?texts ?ids = [context_parts ?texts ?ids ! 0, context_parts ?texts ?ids ! 1]"
    using len by (auto simp: list_eq_iff_nth_eq less_Suc_eq numeral_2_eq_2)
  then have parts: "context_parts ?texts ?ids =
      [''Contract ID: C-7'' @ newline @ ''alpha'', ''Contract Excerpt 2:'' @ newline @ ''beta'']"
    using p0 p1 by simp
  have n0: "context_parts ?texts None ! 0 = ''Contract Excerpt 1:'' @ newline @ ''alpha''"
    using fallback by (simp add: alternative_models_def decimal.simps digit_char_def)
  have c1: "\<exists>pre post.
        snd (generate_answer ?ok ?gen ''gemini-pro'' ''When?'' ?texts ?ids)
          = [InitModel ''gemini-pro'',
             GenerateContent ''gemini-pro''
               (pre @ ''Contract ID: C-7'' @ newline @ ''alpha''
                  @ newline @ newline @ ''---'' @ newline @ newline
                  @ ''Contract Excerpt 2:'' @ newline @ ''beta'' @ post)]"
    using primary0 by (simp add: parts)
  have c2: "\<exists>pre post.
        snd (generate_answer ?alt ?gen ''gemini-2.0-flash'' ''When?'' ?texts None)
          = [InitModel ''gemini-2.0-flash'', InitModel ''gemini-1.5-pro'', InitModel ''gemini-1.5-flash'',
             GenerateContent ''gemini-1.5-flash''
               (pre @ str_join (newline @ newline @ ''---'' @ newline @ newline)
                        (context_parts ?texts None) @ post)]"
    using fallback by (simp add: alternative_models_def)
  from parts n0 c1 c2 show ?thesis
    by (intro conjI)
qed

lemma try_alternatives_all_fail:
  "\<forall>alt \<in> set alts. alt \<noteq> model_name \<longrightarrow> init_model alt \<noteq> None \<Longrightarrow>
   try_alternatives init_model model_name alts =
     (None, map InitModel (filter (\<lambda>alt. alt \<noteq> model_name) alts))"
  by (induction alts) auto

text \<open>
  C4, as the code has it: when the configured model and every alternative fail to
  initialize, the method raises a new \<^verbatim>\<open>ValueError\<close> whose message is a fixed sentence
  followed by the text of the configured model's error; the generation service is never
  called.
\<close>

theorem all_models_fail:
  assumes "context_texts \<noteq> []"
    and "init_model model_name = Some model_error"
    and "\<forall>alt \<in> set alternative_models. alt \<noteq> model_name \<longrightarrow> init_model alt \<noteq> None"
  shows "generate_answer init_model generate_content model_name query context_texts contract_ids =
     (Inl (ValueError (''Could not initialize any Gemini model. Original error: '' @ exn_str model_error)),
      InitModel model_name # map InitModel (filter (\<lambda>alt. alt \<noteq> model_name) alternative_models))"
  using assms
  by (simp add: generate_answer_def Let_def try_alternatives_all_fail)

theorem all_models_fail_witness:
  "generate_answer (\<lambda>name. Some (Exn ''NotFound'' (''no model '' @ name))) (\<lambda>name prompt. Inl (Exn ''X'' ''''))
     ''gemini-pro'' ''When does it end?'' [''Term: two years''] None =
     (Inl (ValueError ''Could not initialize any Gemini model. Original error: no model gemini-pro''),
      [InitModel ''gemini-pro'', InitModel ''gemini-1.5-pro'', InitModel ''gemini-1.5-flash''])"
  using all_models_fail [of "[''Term: two years'']" "\<lambda>name. Some (Exn ''NotFound'' (''no model '' @ name))"
      "''gemini-pro''" "Exn ''NotFound'' ''no model gemini-pro''" "\<lambda>name prompt. Inl (Exn ''X'' '''')"
      "''When does it end?''" None]
  by (simp add: alternative_models_def)

text \<open>
  C4, as the specification words it, fails: the exception raised is not the one the
  configured model failed with; its class and its message both differ.
\<close>

theorem all_models_fail_counterexample:
  "fst (generate_answer (\<lambda>name. Some (Exn ''NotFound'' ''no such model'')) (\<lambda>name prompt. Inl (Exn ''X'' ''''))
     ''gemini-2.0-flash'' ''When does it end?'' [''Term: two years''] None)
     = Inl (ValueError ''Could not initialize any Gemini model. Original error: no such model'')
   \<and> fst (generate_answer (\<lambda>name. Some (Exn ''NotFound'' ''no such model'')) (\<lambda>name prompt. Inl (Exn ''X'' ''''))
     ''gemini-2.0-flash'' ''When does it end?'' [''Term: two years''] None)
     \<noteq> Inl (Exn ''NotFound'' ''no such model'')"
  by (simp add: generate_answer_def Let_def alternative_models_def)

text \<open>
  C5: with no context text the method returns the fixed message and calls neither service.
\<close>

theorem no_context_no_call:
  "generate_answer init_model generate_content model_name query [] contract_ids =
     (Inr ''No contract context available to generate an answer.'', [])"
  by (simp add: generate_answer_def)

lemma strip_empty_iff: "py_strip s = [] \<longleftrightarrow> (\<forall>c \<in> set s. is_space c)"
proof -
  have "py_strip s = [] \<longleftrightarrow> (\<forall>c \<in> set (dropWhile is_space s). is_space c)"
    by (simp add: py_strip_def dropWhile_eq_Nil_conv)
  also have "\<dots> \<longleftrightarrow> dropWhile is_space s = []"
    by (metis dropWhile_eq_Nil_conv hd_dropWhile hd_in_set list.set(1) empty_iff)
  also have "\<dots> \<longleftrightarrow> (\<forall>c \<in> set s. is_space c)"
    by (simp add: dropWhile_eq_Nil_conv)
  finally show ?thesis .
qed

lemma strip_decomposition:
  "s = takeWhile is_space s @ py_strip s @ rev (takeWhile is_space (rev (dropWhile is_space s)))"
proof -
  let ?b = "dropWhile is_space s"
  have "py_strip s @ rev (takeWhile is_space (rev ?b))
      = rev (takeWhile is_space (rev ?b) @ dropWhile is_space (rev ?b))"
    by (simp only: py_strip_def rev_append)
  also have "\<dots> = rev (rev ?b)"
    by (simp only: takeWhile_dropWhile_id)
  also have "\<dots> = ?b"
    by simp
  finally have "takeWhile is_space s @ py_strip s @ rev (takeWhile is_space (rev ?b))
      = takeWhile is_space s @ ?b"
    by simp
  then show ?thesis
    by (simp only: takeWhile_dropWhile_id)
qed

lemma last_dropWhile: "dropWhile P xs \<noteq> [] \<Longrightarrow> last (dropWhile P xs) = last xs"
  by (metis last_appendR takeWhile_dropWhile_id)

lemma strip_ends:
  assumes "py_strip s \<noteq> []"
  shows "\<not> is_space (hd (py_strip s)) \<and> \<not> is_space (last (py_strip s))"
proof -
  let ?b = "dropWhile is_space s"
  let ?d = "dropWhile is_space (rev ?b)"
  have d: "?d \<noteq> []" using assms by (simp add: py_strip_def)
  have b: "?b \<noteq> []"
  proof
    assume "?b = []"
    then have "?d = []" by (simp only: rev.simps dropWhile.simps)
    with d show False by simp
  qed
  have "last (py_strip s) = hd ?d"
    using d by (simp add: py_strip_def last_rev)
  moreover have "\<not> is_space (hd ?d)"
    using d by (rule hd_dropWhile)
  moreover have "hd (py_strip s) = last ?d"
    using d by (simp add: py_strip_def hd_rev)
  moreover have "last ?d = hd ?b"
    using d b by (simp add: last_dropWhile last_rev)
  moreover have "\<not> is_space (hd ?b)"
    using b by (rule hd_dropWhile)
  ultimately show ?thesis by simp
qed

lemma extract_answer_outcomes:
  "(locate_answer response = Some answer \<and> \<not> (\<forall>c \<in> set answer. is_space c) \<longrightarrow>
      extract_answer response = Inr (py_strip answer)
      \<and> answer = takeWhile is_space answer @ py_strip answer
                 @ rev (takeWhile is_space (rev (dropWhile is_space answer)))
      \<and> \<not> is_space (hd (py_strip answer)) \<and> \<not> is_space (last (py_strip answer)))
   \<and> (locate_answer response = Some answer \<and> answer \<noteq> [] \<and> (\<forall>c \<in> set answer. is_space c) \<longrightarrow>
      extract_answer response = Inl (ValueError ''Generated answer is empty''))
   \<and> (locate_answer response = Some [] \<or> locate_answer response = None \<longrightarrow>
      extract_answer response = Inl (no_answer response)
      \<and> (no_answer response = ValueError ''Could not extract answer from Gemini response''
         \<or> (\<exists>reason. no_answer response = ValueError (''Content was blocked: '' @ py_str reason))))"
proof (intro conjI impI)
  assume a: "locate_answer response = Some answer \<and> \<not> (\<forall>c \<in> set answer. is_space c)"
  then have ne: "py_strip answer \<noteq> []" "answer \<noteq> []"
    by (auto simp: strip_empty_iff)
  with a show "extract_answer response = Inr (py_strip answer)"
    by (simp add: extract_answer_def)
  show "answer = takeWhile is_space answer @ py_strip answer
                 @ rev (takeWhile is_space (rev (dropWhile is_space answer)))"
    by (rule strip_decomposition)
  show "\<not> is_space (hd (py_strip answer))" "\<not> is_space (last (py_strip answer))"
    using strip_ends [OF ne(1)] by simp_all
next
  assume "locate_answer response = Some answer \<and> answer \<noteq> [] \<and> (\<forall>c \<in> set answer. is_space c)"
  then show "extract_answer response = Inl (ValueError ''Generated answer is empty'')"
    by (simp add: extract_answer_def strip_empty_iff)
next
  assume "locate_answer response = Some [] \<or> locate_answer response = None"
  then show "extract_answer response = Inl (no_answer response)"
    by (auto simp: extract_answer_def)
next
  show "no_answer response = ValueError ''Could not extract answer from Gemini response''
         \<or> (\<exists>reason. no_answer response = ValueError (''Content was blocked: '' @ py_str reason))"
    by (auto simp: no_answer_def split: option.splits)
qed

text \<open>
  C6: when a model initializes, the configured one or an alternative, and the generation
  service returns a response, \<^verbatim>\<open>generate_answer\<close> does as follows. When answer text is
  located and it is neither empty nor white space only, the method returns it stripped:
  what is cut off at either end is white space, and the result neither starts nor ends
  with white space. Text that is white space only raises the empty-answer error. Empty
  text, or no text at all, raises the error that no answer could be extracted, or the
  error that names the block reason.
\<close>

theorem answer_outcomes:
  assumes "context_texts \<noteq> []"
    and "(init_model model_name = None \<and> model = model_name)
       \<or> (init_model model_name \<noteq> None
          \<and> fst (try_alternatives init_model model_name alternative_models) = Some model)"
    and "generate_content model (build_prompt query context_texts contract_ids) = Inr response"
  shows
   "(locate_answer response = Some answer \<and> \<not> (\<forall>c \<in> set answer. is_space c) \<longrightarrow>
      fst (generate_answer init_model generate_content model_name query context_texts contract_ids)
        = Inr (py_strip answer)
      \<and> answer = takeWhile is_space answer @ py_strip answer
                 @ rev (takeWhile is_space (rev (dropWhile is_space answer)))
      \<and> \<not> is_space (hd (py_strip answer)) \<and> \<not> is_space (last (py_strip answer)))
   \<and> (locate_answer response = Some answer \<and> answer \<noteq> [] \<and> (\<forall>c \<in> set answer. is_space c) \<longrightarrow>
      fst (generate_answer init_model generate_content model_name query context_texts contract_ids)
        = Inl (ValueError ''Generated answer is empty''))
   \<and> (locate_answer response = Some [] \<or> locate_answer response = None \<longrightarrow>
      fst (generate_answer init_model generate_content model_name query context_texts contract_ids)
        = Inl (no_answer response)
      \<and> (no_answer response = ValueError ''Could not extract answer from Gemini response''
         \<or> (\<exists>reason. no_answer response = ValueError (''Content was blocked: '' @ py_str reason))))"
proof -
  have "fst (generate_answer init_model generate_content model_name query context_texts contract_ids)
      = extract_answer response"
    using assms(3)
    by (simp add: generate_answer_with [OF assms(1) assms(2)] generate_with_result)
  then show ?thesis
    using extract_answer_outcomes [of response answer] by simp
qed

theorem answer_outcomes_witness:
  "fst (generate_answer (\<lambda>name. None)
        (\<lambda>name prompt. Inr \<lparr>response_text = Some '' Two years. '', candidates = None,
                               prompt_feedback = None\<rparr>)
        ''gemini-pro'' ''How long?'' [''Term: two years''] None)
     = Inr ''Two years.''
   \<and> fst (generate_answer
        (\<lambda>name. if name = ''gemini-1.5-flash'' then None else Some (Exn ''NotFound'' ''no model''))
        (\<lambda>name prompt. Inr \<lparr>response_text = None,
           candidates = Some [\<lparr>finish_reason = Some 1,
             cand_content = Some \<lparr>content_parts = None, content_text = Some ''  '', content_str = ''c''\<rparr>,
             cand_text = None, cand_str = ''d''\<rparr>],
           prompt_feedback = None\<rparr>)
        ''gemini-2.0-flash'' ''How long?'' [''Term: two years''] None)
     = Inl (ValueError ''Generated answer is empty'')
   \<and> fst (generate_answer (\<lambda>name. None)
        (\<lambda>name prompt. Inr \<lparr>response_text = Some [], candidates = Some [],
                               prompt_feedback = Some \<lparr>block_reason = Some (PInt 2)\<rparr>\<rparr>)
        ''gemini-pro'' ''How long?'' [''Term: two years''] None)
     = Inl (ValueError ''Content was blocked: 2'')"
proof -
  let ?r1 = "\<lparr>response_text = Some '' Two years. '', candidates = None, prompt_feedback = None\<rparr>"
  let ?r2 = "\<lparr>response_text = None,
        candidates = Some [\<lparr>finish_reason = Some 1,
          cand_content = Some \<lparr>content_parts = None, content_text = Some ''  '', content_str = ''c''\<rparr>,
          cand_text = None, cand_str = ''d''\<rparr>],
        prompt_feedback = None\<rparr>"
  let ?r3 = "\<lparr>response_text = Some [], candidates = Some [],
        prompt_feedback = Some \<lparr>block_reason = Some (PInt 2)\<rparr>\<rparr>"
  let ?ok = "\<lambda>name::string. None :: exn option"
  let ?alt = "\<lambda>name. if name = ''gemini-1.5-flash'' then None else Some (Exn ''NotFound'' ''no model'')"
  have sp: "is_space CHR '' ''" "\<not> is_space CHR ''T''" "\<not> is_space CHR ''.''"
    by (simp_all add: is_space_def whitespace_def)
  have s1: "py_strip '' Two years. '' = ''Two years.''"
    by (simp add: py_strip_def sp)
  have "fst (generate_answer ?ok (\<lambda>name prompt. Inr ?r1) ''gemini-pro'' ''How long?''
          [''Term: two years''] None) = Inr ''Two years.''"
    using answer_outcomes [where context_texts = "[''Term: two years'']" and init_model = ?ok
        and model_name = "''gemini-pro''" and model = "''gemini-pro''"
        and generate_content = "\<lambda>name prompt. Inr ?r1" and query = "''How long?''"
        and contract_ids = None and response = ?r1 and answer = "'' Two years. ''"] s1 sp
    by (simp add: locate_answer_def)
  moreover have "fst (generate_answer ?alt (\<lambda>name prompt. Inr ?r2) ''gemini-2.0-flash'' ''How long?''
          [''Term: two years''] None) = Inl (ValueError ''Generated answer is empty'')"
    using answer_outcomes [where context_texts = "[''Term: two years'']" and init_model = ?alt
        and model_name = "''gemini-2.0-flash''" and model = "''gemini-1.5-flash''"
        and generate_content = "\<lambda>name prompt. Inr ?r2" and query = "''How long?''"
        and contract_ids = None and response = ?r2 and answer = "''  ''"] sp
    by (simp add: locate_answer_def candidate_answer_def alternative_models_def)
  moreover have "fst (generate_answer ?ok (\<lambda>name prompt. Inr ?r3) ''gemini-pro'' ''How long?''
          [''Term: two years''] None) = Inl (ValueError ''Content was blocked: 2'')"
    using answer_outcomes [where context_texts = "[''Term: two years'']" and init_model = ?ok
        and model_name = "''gemini-pro''" and model = "''gemini-pro''"
        and generate_content = "\<lambda>name prompt. Inr ?r3" and query = "''How long?''"
        and contract_ids = None and response = ?r3 and answer = "[]"]
    by (simp add: locate_answer_def no_answer_def decimal.simps digit_char_def)
  ultimately show ?thesis by simp
qed

section \<open>Properties of the upload tester\<close>

lemma print_metadata_invoice_eq:
  "print_metadata_invoice kvs out = out @ map plain_line kvs"
  by (induction kvs out rule: print_metadata_invoice.induct) (simp_all add: plain_line_def)

lemma print_metadata_contract_eq:
  "print_metadata_contract kvs out = out @ map contract_line kvs"
  by (induction kvs out rule: print_metadata_contract.induct)
    (simp_all add: contract_line_def plain_line_def truncated_line_def)

text \<open>
  C8, as the code has it: on status 200 with a JSON body, both paths print, after the
  header, one line for every pair of the metadata, in order. The invoice path prints
  every value in full. The contract path cuts a value to its first 200 characters, with a
  note of the full length, only for the key \<^verbatim>\<open>text\<close>, when the value counts as true and its
  text is longer than 200 characters.
\<close>

theorem upload_prints_metadata:
  assumes "status_code response = 200" and "json_body response = Inr result"
  shows "report_invoice response =
           result_header result
             @ map plain_line (case result_metadata result of Some kvs \<Rightarrow> kvs | None \<Rightarrow> [])
    \<and> report_contract response =
           result_header result
             @ map contract_line (case result_metadata result of Some kvs \<Rightarrow> kvs | None \<Rightarrow> [])"
  using assms
  by (simp add: report_invoice_def report_contract_def print_metadata_invoice_eq
      print_metadata_contract_eq)

theorem upload_prints_metadata_witness:
  "report_contract \<lparr>status_code = 200,
      json_body = Inr \<lparr>result_message = Some (PStr ''ok''),
        result_metadata = Some [(''contract_id'', PStr ''C-7''), (''text'', PStr (replicate 201 CHR ''a''))]\<rparr>,
      body_text = ''''\<rparr>
   = [success_banner, ''Message: ok'', newline @ ''Extracted Metadata:'', ''  contract_id: C-7'',
      ''  text: '' @ replicate 200 CHR ''a'' @ ''... (truncated, full length: 201 chars)'']"
  using upload_prints_metadata [of
      "\<lparr>status_code = 200,
        json_body = Inr \<lparr>result_message = Some (PStr ''ok''),
          result_metadata = Some [(''contract_id'', PStr ''C-7''), (''text'', PStr (replicate 201 CHR ''a''))]\<rparr>,
        body_text = ''''\<rparr>"
      "\<lparr>result_message = Some (PStr ''ok''),
          result_metadata = Some [(''contract_id'', PStr ''C-7''), (''text'', PStr (replicate 201 CHR ''a''))]\<rparr>"]
  by (simp add: result_header_def contract_line_def plain_line_def truncated_line_def
      decimal.simps digit_char_def)

text \<open>
  C8, as the specification words it, fails on both paths: the invoice path prints a value
  of 201 characters in full, and so does the contract path under any key but \<^verbatim>\<open>text\<close>.
\<close>

theorem upload_prints_metadata_counterexample:
  "print_metadata_invoice [(''summary'', PStr (replicate 201 CHR ''a''))] []
     = [''  summary: '' @ replicate 201 CHR ''a'']
   \<and> print_metadata_contract [(''summary'', PStr (replicate 201 CHR ''a''))] []
     = [''  summary: '' @ replicate 201 CHR ''a'']
   \<and> map spec_line [(''summary'', PStr (replicate 201 CHR ''a''))]
     = [''  summary: '' @ replicate 200 CHR ''a'' @ ''... (truncated, full length: 201 chars)'']
   \<and> print_metadata_invoice [(''summary'', PStr (replicate 201 CHR ''a''))] []
     \<noteq> map spec_line [(''summary'', PStr (replicate 201 CHR ''a''))]
   \<and> print_metadata_contract [(''summary'', PStr (replicate 201 CHR ''a''))] []
     \<noteq> map spec_line [(''summary'', PStr (replicate 201 CHR ''a''))]"
proof -
  have differ: "replicate 201 CHR ''a'' \<noteq> replicate 200 CHR ''a'' @ ''... (truncated, full length: 201 chars)''"
  proof
    assume "replicate 201 CHR ''a'' = replicate 200 CHR ''a'' @ ''... (truncated, full length: 201 chars)''"
    then have "length (replicate 201 CHR ''a'')
        = length (replicate 200 CHR ''a'' @ ''... (truncated, full length: 201 chars)'')"
      by (rule arg_cong)
    then show False by simp
  qed
  show ?thesis
    using differ
    by (simp add: spec_line_def truncated_line_def plain_line_def decimal.simps digit_char_def)
qed

end
